theory Spec2Isabelle
  imports Complex_Main "HOL-Library.Word"
begin

unbundle bit_operations_syntax

section \<open>Body model: \<^verbatim>\<open>physics/massive_body_body.hpp\<close>\<close>

text \<open>
  A \<^verbatim>\<open>Quantity\<close> wraps one number; its dimension is a compile-time tag and carries no
  run-time data.  The numbers are modelled as exact reals, so \<^verbatim>\<open>*\<close> and \<^verbatim>\<open>/\<close> of
  two quantities are the real product and quotient.  The gravitational constant comes
  from \<^verbatim>\<open>quantities/constants.hpp\<close>; it is a parameter \<open>G\<close> of the constructors.

  A failed glog \<^verbatim>\<open>CHECK\<close> aborts the program with its message: it is the error value
  of a construction.
\<close>

type_synonym Mass = real
type_synonym GravitationalParameter = real

datatype check_failure = CheckFailed string

text \<open>The members \<^verbatim>\<open>gravitational_parameter_\<close> and \<^verbatim>\<open>mass_\<close>.\<close>

record MassiveBody =
  m_gravitational_parameter :: GravitationalParameter
  m_mass :: Mass

text \<open>
  \<^verbatim>\<open>MassiveBody::MassiveBody(GravitationalParameter const&)\<close>: the members are
  initialised, then \<^verbatim>\<open>CHECK_NE(gravitational_parameter, GravitationalParameter())\<close>
  runs, where the default-constructed quantity is zero.
\<close>

definition MassiveBody_from_gravitational_parameter ::
    "real \<Rightarrow> GravitationalParameter \<Rightarrow> check_failure + MassiveBody" where
  "MassiveBody_from_gravitational_parameter G gravitational_parameter =
     (let body = \<lparr> m_gravitational_parameter = gravitational_parameter,
                     m_mass = gravitational_parameter / G \<rparr>
      in if gravitational_parameter \<noteq> 0 then Inr body
         else Inl (CheckFailed ''Massive body cannot have zero gravitational parameter''))"

text \<open>\<^verbatim>\<open>MassiveBody::MassiveBody(Mass const&)\<close>.\<close>

definition MassiveBody_from_mass :: "real \<Rightarrow> Mass \<Rightarrow> check_failure + MassiveBody" where
  "MassiveBody_from_mass G mass =
     (let body = \<lparr> m_gravitational_parameter = mass * G, m_mass = mass \<rparr>
      in if mass \<noteq> 0 then Inr body
         else Inl (CheckFailed ''Massive body cannot have zero mass''))"

definition gravitational_parameter :: "MassiveBody \<Rightarrow> GravitationalParameter" where
  "gravitational_parameter body = m_gravitational_parameter body"

definition mass :: "MassiveBody \<Rightarrow> Mass" where
  "mass body = m_mass body"

definition is_massless :: "MassiveBody \<Rightarrow> bool" where
  "is_massless body = False"

definition is_oblate :: "MassiveBody \<Rightarrow> bool" where
  "is_oblate body = False"


section \<open>Test utilities: \<^verbatim>\<open>testing_utilities/numerics_body.hpp\<close>\<close>

text \<open>
  \<^verbatim>\<open>ULPDistance\<close> reads a \<^verbatim>\<open>double\<close> through the union \<^verbatim>\<open>Qword\<close> as a 64-bit integer.
  A \<^verbatim>\<open>double\<close> is therefore modelled here by its IEEE 754 binary64 bit pattern: bit 63
  is the sign, bits 62 to 52 the biased exponent, bits 51 to 0 the fraction.  The
  operations on \<^verbatim>\<open>double\<close> that \<^verbatim>\<open>ULPDistance\<close> uses (\<^verbatim>\<open>==\<close>, \<^verbatim>\<open>!=\<close> and
  \<^verbatim>\<open>std::copysign\<close>) are defined on the bit pattern.
\<close>

type_synonym double = "64 word"
type_synonym int64 = "64 word"

definition sign_bit :: "double \<Rightarrow> bool" where
  "sign_bit x = bit x 63"

definition magnitude :: "double \<Rightarrow> 64 word" where
  "magnitude x = x AND 0x7FFFFFFFFFFFFFFF"

text \<open>A NaN has all exponent bits set and a nonzero fraction.\<close>

definition is_nan :: "double \<Rightarrow> bool" where
  "is_nan x = (0x7FF0000000000000 < magnitude x)"

text \<open>
  The operator \<^verbatim>\<open>==\<close> on \<^verbatim>\<open>double\<close>: a NaN compares unequal to everything, itself
  included; the two zeros compare equal; otherwise the bit patterns decide.
\<close>

definition double_eq :: "double \<Rightarrow> double \<Rightarrow> bool" where
  "double_eq x y =
     (\<not> is_nan x \<and> \<not> is_nan y \<and> (x = y \<or> (magnitude x = 0 \<and> magnitude y = 0)))"

definition PLUS_ZERO :: double where
  "PLUS_ZERO = 0x0000000000000000"

definition MINUS_ZERO :: double where
  "MINUS_ZERO = 0x8000000000000000"

definition PLUS_ONE :: double where
  "PLUS_ONE = 0x3FF0000000000000"

definition MINUS_ONE :: double where
  "MINUS_ONE = 0xBFF0000000000000"

text \<open>\<^verbatim>\<open>std::copysign(1, x)\<close>: the value 1.0 with the sign bit of \<open>x\<close>, also of a NaN.\<close>

definition copysign_1 :: "double \<Rightarrow> double" where
  "copysign_1 x = (if sign_bit x then MINUS_ONE else PLUS_ONE)"

text \<open>
  \<^verbatim>\<open>std::abs\<close> on \<^verbatim>\<open>std::int64_t\<close>.  The 64-bit integers wrap around, so the
  negation of the least value is that value again.
\<close>

definition int64_abs :: "int64 \<Rightarrow> int64" where
  "int64_abs v = (if v <s 0 then - v else v)"

text \<open>
  \<^verbatim>\<open>ULPDistance\<close>, with the source's recursion for operands of opposite sign.  The
  result is the \<^verbatim>\<open>std::int64_t\<close> as a 64-bit word, which \<open>sint\<close> reads; \<^verbatim>\<open>-\<close> and
  \<^verbatim>\<open>+\<close> on \<^verbatim>\<open>std::int64_t\<close> are the wrapping operations of the word type.
\<close>

function ULPDistance :: "double \<Rightarrow> double \<Rightarrow> int64" where
  "ULPDistance x y =
     (if double_eq x y then 0
      else
        let x_sign = copysign_1 x;
            y_sign = copysign_1 y
        in if \<not> double_eq x_sign y_sign then
             let positive = (if double_eq x_sign PLUS_ONE then x else y);
                 negative = (if double_eq x_sign PLUS_ONE then y else x)
             in ULPDistance positive PLUS_ZERO + ULPDistance negative MINUS_ZERO
           else int64_abs (x - y))"
  by pat_completeness auto

text \<open>
  The recursion is at most one level deep: the recursive calls compare two operands of
  the same sign.
\<close>

termination ULPDistance
proof (relation "measure (\<lambda>(x, y). if sign_bit x \<noteq> sign_bit y then 1 else 0)")
  show "wf (measure (\<lambda>(x, y). if sign_bit x \<noteq> sign_bit y then 1 else (0::nat)))"
    by simp
next
  fix x y x_sign y_sign positive
  assume "x_sign = copysign_1 x" "y_sign = copysign_1 y"
    and "\<not> double_eq x_sign y_sign"
    and "positive = (if double_eq x_sign PLUS_ONE then x else y)"
  then show "((positive, PLUS_ZERO), (x, y))
      \<in> measure (\<lambda>(x, y). if sign_bit x \<noteq> sign_bit y then 1 else 0)"
    by (auto simp: copysign_1_def double_eq_def is_nan_def magnitude_def sign_bit_def
        PLUS_ONE_def MINUS_ONE_def PLUS_ZERO_def split: if_splits)
next
  fix x y x_sign y_sign negative
  assume "x_sign = copysign_1 x" "y_sign = copysign_1 y"
    and "\<not> double_eq x_sign y_sign"
    and "negative = (if double_eq x_sign PLUS_ONE then y else x)"
  then show "((negative, MINUS_ZERO), (x, y))
      \<in> measure (\<lambda>(x, y). if sign_bit x \<noteq> sign_bit y then 1 else 0)"
    by (auto simp: copysign_1_def double_eq_def is_nan_def magnitude_def sign_bit_def
        PLUS_ONE_def MINUS_ONE_def MINUS_ZERO_def split: if_splits)
qed

declare ULPDistance.simps [simp del]



section \<open>Geometric algebra layer\<close>

text \<open>
  \<^verbatim>\<open>GeometryTests/GrassmannTests.cpp\<close> exercises \<^verbatim>\<open>R3Element\<close>, \<^verbatim>\<open>Vector\<close>,
  \<^verbatim>\<open>Bivector\<close>, \<^verbatim>\<open>Trivector\<close>, \<^verbatim>\<open>Wedge\<close>, \<^verbatim>\<open>InnerProduct\<close> and \<^verbatim>\<open>Commutator\<close>;
  the headers that define them (\<^verbatim>\<open>Geometry/R3Element.hpp\<close>, \<^verbatim>\<open>Geometry/Grassmann.hpp\<close>)
  are not among the sources at hand.  The definitions of this section follow the
  specification.  Scalars are exact reals; the frame is a compile-time tag without
  run-time data, and each grade is a type of its own, so that operands of different
  grades cannot be combined.
\<close>

text \<open>
  Modelled from the spec: \<^verbatim>\<open>R3Element\<close> of \<^verbatim>\<open>Geometry/R3Element.hpp\<close>, ``three
  same-typed components (x,y,z)'', with its vector-space operations ``add, scale, dot,
  cross, norm''.
\<close>

datatype R3Element = R3Element (r3_x: real) (r3_y: real) (r3_z: real)

text \<open>Modelled from the spec: the zero tuple of \<^verbatim>\<open>R3Element\<close>.\<close>

definition R3_zero :: R3Element where
  "R3_zero = R3Element 0 0 0"

text \<open>Modelled from the spec: addition of \<^verbatim>\<open>R3Element\<close>s, component by component.\<close>

definition R3_plus :: "R3Element \<Rightarrow> R3Element \<Rightarrow> R3Element" where
  "R3_plus l r = R3Element (r3_x l + r3_x r) (r3_y l + r3_y r) (r3_z l + r3_z r)"

text \<open>Modelled from the spec: subtraction of \<^verbatim>\<open>R3Element\<close>s, component by component.\<close>

definition R3_minus :: "R3Element \<Rightarrow> R3Element \<Rightarrow> R3Element" where
  "R3_minus l r = R3Element (r3_x l - r3_x r) (r3_y l - r3_y r) (r3_z l - r3_z r)"


text \<open>Modelled from the spec: scaling of an \<^verbatim>\<open>R3Element\<close> by a scalar.\<close>

definition R3_scale :: "real \<Rightarrow> R3Element \<Rightarrow> R3Element" where
  "R3_scale s r = R3Element (s * r3_x r) (s * r3_y r) (s * r3_z r)"

text \<open>Modelled from the spec: the dot product of two \<^verbatim>\<open>R3Element\<close>s.\<close>

definition Dot :: "R3Element \<Rightarrow> R3Element \<Rightarrow> real" where
  "Dot l r = r3_x l * r3_x r + r3_y l * r3_y r + r3_z l * r3_z r"


text \<open>Modelled from the spec: the Euclidean norm of an \<^verbatim>\<open>R3Element\<close>.\<close>

definition R3_Norm :: "R3Element \<Rightarrow> real" where
  "R3_Norm r = sqrt (Dot r r)"

text \<open>
  Modelled from the spec: \<^verbatim>\<open>Multivector\<close> of \<^verbatim>\<open>Geometry/Grassmann.hpp\<close> at rank 1,
  which ``wraps an R3Element''.
\<close>

datatype Vector = Vector (vector_coordinates: R3Element)



text \<open>Modelled from the spec: the zero vector, bivector and trivector.\<close>

definition Vector_zero :: Vector where
  "Vector_zero = Vector R3_zero"














section \<open>Trajectory\<close>

text \<open>
  \<^verbatim>\<open>physics/n_body_system_test.cpp\<close> fills two trajectories with \<^verbatim>\<open>Append\<close> and reads
  them with \<^verbatim>\<open>positions\<close>; \<^verbatim>\<open>physics/trajectory.hpp\<close> itself is not among the sources
  at hand.  Positions and velocities are the displacement and velocity vectors that the
  test passes; times are exact reals.
\<close>

type_synonym Time = real

text \<open>
  Modelled from the spec: \<^verbatim>\<open>Trajectory\<close> of \<^verbatim>\<open>physics/trajectory.hpp\<close>, an
  ``append-only ordered sequence of (time, position, velocity) samples''.
\<close>

record Trajectory =
  timeline :: "(Time \<times> Vector \<times> Vector) list"

text \<open>Modelled from the spec: a fresh trajectory, without samples.\<close>

definition Trajectory_empty :: Trajectory where
  "Trajectory_empty = \<lparr> timeline = [] \<rparr>"

text \<open>Modelled from the spec: the ``last appended time'' of a trajectory, if it has one.\<close>

definition last_time :: "Trajectory \<Rightarrow> Time option" where
  "last_time trajectory =
     (case timeline trajectory of [] \<Rightarrow> None | _ \<Rightarrow> Some (fst (last (timeline trajectory))))"

text \<open>
  Modelled from the spec: \<^verbatim>\<open>Trajectory::Append\<close>, which ``requires time strictly
  greater than the last appended time (or the trajectory is empty); violating this is
  an error, not silently ignored''.
\<close>

definition Append :: "Vector \<Rightarrow> Vector \<Rightarrow> Time \<Rightarrow> Trajectory \<Rightarrow> check_failure + Trajectory"
  where
  "Append position velocity time trajectory =
     (case last_time trajectory of
        None \<Rightarrow> Inr (trajectory\<lparr> timeline := [(time, position, velocity)] \<rparr>)
      | Some last_appended \<Rightarrow>
          if last_appended < time
          then Inr (trajectory\<lparr> timeline := timeline trajectory @ [(time, position, velocity)] \<rparr>)
          else Inl (CheckFailed ''Append out of order''))"

text \<open>Modelled from the spec: \<^verbatim>\<open>positions()\<close>, ``the full ordered sequence''.\<close>

definition positions :: "Trajectory \<Rightarrow> Vector list" where
  "positions trajectory = map (\<lambda>(time, position, velocity). position) (timeline trajectory)"

text \<open>Modelled from the spec: \<^verbatim>\<open>velocities()\<close>, ``the full ordered sequence''.\<close>

definition velocities :: "Trajectory \<Rightarrow> Vector list" where
  "velocities trajectory = map (\<lambda>(time, position, velocity). velocity) (timeline trajectory)"

text \<open>Modelled from the spec: the times of the samples, in the order of the sequence.\<close>

definition sample_times :: "Trajectory \<Rightarrow> Time list" where
  "sample_times trajectory = map fst (timeline trajectory)"


section \<open>SPRK integrator and N-body system\<close>

text \<open>
  \<^verbatim>\<open>physics/n_body_system_test.cpp\<close> initialises an \<^verbatim>\<open>SPRKIntegrator\<close>, builds an
  \<^verbatim>\<open>NBodySystem\<close> from two massive bodies and their trajectories, and calls
  \<^verbatim>\<open>Integrate(integrator, duration, dt, sampling_period)\<close> on it.  Neither
  \<^verbatim>\<open>physics/n_body_system.hpp\<close> nor the header of the integrator is among the sources
  at hand; the definitions of this section follow the specification.  The zonal
  harmonics of an oblate body, whose formula the specification leaves open, are not
  part of the model: its bodies are point masses and massless bodies.
\<close>

text \<open>
  Modelled from the spec: \<^verbatim>\<open>SPRKIntegrator\<close>, configured by ``fixed arrays of
  step-splitting coefficients (a,b)'', here one pair for each stage; it has no
  coefficients before \<^verbatim>\<open>Initialize\<close>.
\<close>

record SPRKIntegrator =
  coefficients :: "(real \<times> real) list option"

text \<open>Modelled from the spec: an integrator on which \<^verbatim>\<open>Initialize\<close> was not called yet.\<close>

definition SPRKIntegrator_new :: SPRKIntegrator where
  "SPRKIntegrator_new = \<lparr> coefficients = None \<rparr>"

text \<open>Modelled from the spec: \<^verbatim>\<open>Initialize(coefficients)\<close> of the integrator.\<close>

definition Initialize :: "(real \<times> real) list \<Rightarrow> SPRKIntegrator \<Rightarrow> SPRKIntegrator" where
  "Initialize stages integrator = integrator\<lparr> coefficients := Some stages \<rparr>"

text \<open>
  Modelled from the spec: one step of the integrator.  ``For each sub-stage i, advance
  all momenta using accelerations evaluated at the current positions scaled by
  coefficient b_i dt, then advance all positions using the updated velocities scaled by
  coefficient a_i dt; repeat for all stages in the coefficient set.''
\<close>

fun sprk_step ::
    "(real \<times> real) list \<Rightarrow> Time \<Rightarrow> (R3Element list \<Rightarrow> R3Element list) \<Rightarrow>
     R3Element list \<times> R3Element list \<Rightarrow> R3Element list \<times> R3Element list" where
  "sprk_step [] dt compute_acceleration (q, v) = (q, v)"
| "sprk_step ((a, b) # stages) dt compute_acceleration (q, v) =
     (let v' = map2 (\<lambda>v_i acceleration. R3_plus v_i (R3_scale (b * dt) acceleration))
                 v (compute_acceleration q);
          q' = map2 (\<lambda>q_i v_i. R3_plus q_i (R3_scale (a * dt) v_i)) q v'
      in sprk_step stages dt compute_acceleration (q', v'))"

text \<open>
  Modelled from the spec: the acceleration that a massive body of gravitational
  parameter \<open>\<mu>\<close> at \<open>q_source\<close> gives to a body at \<open>q\<close>, by the ``pairwise
  inverse-square law along the separating displacement vector''; coincident points
  give ``zero contribution''.
\<close>

definition pair_acceleration :: "GravitationalParameter \<Rightarrow> R3Element \<Rightarrow> R3Element \<Rightarrow> R3Element"
  where
  "pair_acceleration \<mu> q_source q =
     (let displacement = R3_minus q_source q;
          r = R3_Norm displacement
      in if r = 0 then R3_zero else R3_scale (\<mu> / r ^ 3) displacement)"

text \<open>
  Modelled from the spec: ``for every body, the total gravitational acceleration
  contributed by every massive body''; ``a body does not exert force on itself''.  The
  massive bodies come first among the bodies, so \<open>\<mu>s\<close>, their gravitational
  parameters, pair with a prefix of the positions \<open>qs\<close>.
\<close>

definition accelerations :: "GravitationalParameter list \<Rightarrow> R3Element list \<Rightarrow> R3Element list"
  where
  "accelerations \<mu>s qs =
     map (\<lambda>(i, q).
            foldl R3_plus R3_zero
              (map (\<lambda>(j, \<mu>, q_source). pair_acceleration \<mu> q_source q)
                 (filter (\<lambda>(j, \<mu>, q_source). j \<noteq> i) (enumerate 0 (zip \<mu>s qs)))))
       (enumerate 0 qs)"

text \<open>Modelled from the spec: a massless body, which has no physical parameter.\<close>

datatype MasslessBody = MasslessBody

text \<open>
  Modelled from the spec: \<^verbatim>\<open>NBodySystem\<close>, which ``owns the full body list (split into
  massive and massless) and one trajectory per body'', the trajectories of the massive
  bodies first.
\<close>

record NBodySystem =
  massive_bodies :: "MassiveBody list"
  massless_bodies :: "MasslessBody list"
  trajectories :: "Trajectory list"

text \<open>
  Modelled from the spec: the state from which an integration starts, the last
  sample of every trajectory.  There is none when there is no trajectory, when a
  trajectory is empty, or when the last times of the trajectories differ.
\<close>

definition initial_state ::
    "Trajectory list \<Rightarrow> (Time \<times> R3Element list \<times> R3Element list) option" where
  "initial_state trajectory_list =
     (case trajectory_list of
        [] \<Rightarrow> None
      | first # _ \<Rightarrow>
          (case last_time first of
             None \<Rightarrow> None
           | Some t \<Rightarrow>
               if list_all (\<lambda>trajectory. last_time trajectory = Some t) trajectory_list
               then Some (t,
                      map (\<lambda>trajectory. vector_coordinates (last (positions trajectory)))
                        trajectory_list,
                      map (\<lambda>trajectory. vector_coordinates (last (velocities trajectory)))
                        trajectory_list)
               else None))"

text \<open>
  Modelled from the spec: ``append the new state to each body's trajectory''.  The
  appends go through \<^verbatim>\<open>Append\<close>; the first failure is the result, and then no
  trajectory list is produced.
\<close>

fun append_all ::
    "Time \<Rightarrow> (R3Element \<times> R3Element) list \<Rightarrow> Trajectory list \<Rightarrow>
     check_failure + Trajectory list" where
  "append_all t [] [] = Inr []"
| "append_all t ((q, v) # states) (trajectory # rest) =
     (case Append (Vector q) (Vector v) t trajectory of
        Inl failure \<Rightarrow> Inl failure
      | Inr trajectory' \<Rightarrow>
          (case append_all t states rest of
             Inl failure \<Rightarrow> Inl failure
           | Inr rest' \<Rightarrow> Inr (trajectory' # rest')))"
| "append_all t _ _ = Inl (CheckFailed ''One trajectory per body expected'')"

text \<open>
  Modelled from the spec: the loop of \<^verbatim>\<open>Integrate\<close>.  ``For each requested step of
  size dt'' the accelerations are computed, the integrator advances the state by
  \<open>dt\<close>, and the new state is appended to the trajectories ``at multiples of
  sampling_period''.  The first argument counts the steps still to do, the second the
  steps done.
\<close>

fun integrate_steps ::
    "nat \<Rightarrow> nat \<Rightarrow> (real \<times> real) list \<Rightarrow> Time \<Rightarrow> nat \<Rightarrow> GravitationalParameter list \<Rightarrow>
     Time \<Rightarrow> R3Element list \<times> R3Element list \<Rightarrow> Trajectory list \<Rightarrow>
     check_failure + Trajectory list" where
  "integrate_steps 0 done stages dt sampling_period \<mu>s t state trajectory_list =
     Inr trajectory_list"
| "integrate_steps (Suc remaining) done stages dt sampling_period \<mu>s t state trajectory_list =
     (let state' = sprk_step stages dt (accelerations \<mu>s) state;
          t' = t + dt
      in if Suc done mod sampling_period = 0
         then (case append_all t' (zip (fst state') (snd state')) trajectory_list of
                 Inl failure \<Rightarrow> Inl failure
               | Inr trajectory_list' \<Rightarrow>
                   integrate_steps remaining (Suc done) stages dt sampling_period \<mu>s
                     t' state' trajectory_list')
         else integrate_steps remaining (Suc done) stages dt sampling_period \<mu>s
                t' state' trajectory_list)"

text \<open>
  Modelled from the spec: \<^verbatim>\<open>NBodySystem::Integrate\<close>.  It ``fails (reports an error,
  does not silently degrade) if dt is non-positive, if sampling_period is not a
  positive multiple relationship to dt, or if any body collection is empty of massive
  bodies while massless bodies are present''; ``stepping with uninitialized
  coefficients is an error''.  The result is the failure, if any, and the system after
  the call: the trajectories are replaced only when every step has succeeded.
\<close>

definition Integrate ::
    "SPRKIntegrator \<Rightarrow> Time \<Rightarrow> Time \<Rightarrow> int \<Rightarrow> NBodySystem \<Rightarrow>
     check_failure option \<times> NBodySystem" where
  "Integrate integrator duration dt sampling_period system =
     (if dt \<le> 0 then
        (Some (CheckFailed ''Time step must be positive''), system)
      else if sampling_period \<le> 0 then
        (Some (CheckFailed ''Sampling period must be positive''), system)
      else if massive_bodies system = [] \<and> massless_bodies system \<noteq> [] then
        (Some (CheckFailed ''Massless bodies without massive bodies''), system)
      else if length (trajectories system) \<noteq>
              length (massive_bodies system) + length (massless_bodies system) then
        (Some (CheckFailed ''One trajectory per body expected''), system)
      else
        case coefficients integrator of
          None \<Rightarrow> (Some (CheckFailed ''Integrator not initialized''), system)
        | Some stages \<Rightarrow>
            (case initial_state (trajectories system) of
               None \<Rightarrow> (Some (CheckFailed ''Trajectories without a common last time''), system)
             | Some (t, state) \<Rightarrow>
                 (case integrate_steps (nat \<lfloor>duration / dt\<rfloor>) 0 stages dt
                         (nat sampling_period)
                         (map gravitational_parameter (massive_bodies system))
                         t state (trajectories system) of
                    Inl failure \<Rightarrow> (Some failure, system)
                  | Inr trajectory_list \<Rightarrow>
                      (None, system\<lparr> trajectories := trajectory_list \<rparr>))))"

section \<open>Properties of the body model\<close>

text \<open>
  C2. Constructing a MassiveBody from a zero mass, or from a zero gravitational
  parameter, fails at construction with the message of the check, and no body (in
  particular no body with a default value) is produced; from every nonzero mass and
  every nonzero gravitational parameter the construction succeeds.
\<close>

theorem MassiveBody_construction_fails_iff_zero:
  "MassiveBody_from_mass G 0 = Inl (CheckFailed ''Massive body cannot have zero mass'')
   \<and> MassiveBody_from_gravitational_parameter G 0 =
       Inl (CheckFailed ''Massive body cannot have zero gravitational parameter'')
   \<and> (m \<noteq> 0 \<longrightarrow> (\<exists>body. MassiveBody_from_mass G m = Inr body))
   \<and> (\<mu> \<noteq> 0 \<longrightarrow> (\<exists>body. MassiveBody_from_gravitational_parameter G \<mu> = Inr body))"
  by (simp add: MassiveBody_from_mass_def MassiveBody_from_gravitational_parameter_def)

theorem MassiveBody_construction_witness:
  "(6 * 10 ^ 24 :: real) \<noteq> 0 \<and> (398600 :: real) \<noteq> 0
   \<and> (\<exists>body. MassiveBody_from_mass (667384 / 10 ^ 16) (6 * 10 ^ 24) = Inr body)
   \<and> (\<exists>body. MassiveBody_from_gravitational_parameter (667384 / 10 ^ 16) 398600 = Inr body)"
  using MassiveBody_construction_fails_iff_zero
    [of "667384 / 10 ^ 16" "6 * 10 ^ 24" 398600]
  by simp



text \<open>
  C9. Every MassiveBody, whatever mass or gravitational parameter it holds, answers
  the capability queries \<open>is_massless\<close> and \<open>is_oblate\<close> with false.  (An oblate body
  is a subclass defined in another file and overrides the second query.)
\<close>

theorem MassiveBody_is_neither_massless_nor_oblate:
  "is_massless body = False \<and> is_oblate body = False"
  by (simp add: is_massless_def is_oblate_def)


section \<open>Properties of the distance in units of the last place\<close>

lemma unat_magnitude: "unat (magnitude x) = unat x mod 2 ^ 63"
proof -
  have m: "(0x7FFFFFFFFFFFFFFF :: 64 word) = mask 63"
    by (simp add: mask_eq_exp_minus_1)
  show ?thesis
    unfolding magnitude_def m
    by (simp flip: take_bit_eq_mask add: unsigned_take_bit_eq take_bit_eq_mod unat_mod)
qed

lemma sign_bit_unat: "sign_bit x = (9223372036854775808 \<le> unat x)"
proof -
  have "unat x < 18446744073709551616"
    using unsigned_less [of x] by simp
  then have "unat x div 9223372036854775808 = (if 9223372036854775808 \<le> unat x then 1 else 0)"
    by auto
  then have "bit (unat x) 63 = (9223372036854775808 \<le> unat x)"
    by (simp add: bit_iff_odd_drop_bit drop_bit_eq_div)
  then show ?thesis
    unfolding sign_bit_def by (simp add: bit_unsigned_iff)
qed

lemma unat_magnitude_if:
  "unat (magnitude x) = (if sign_bit x then unat x - 9223372036854775808 else unat x)"
proof -
  have "unat x < 18446744073709551616"
    using unsigned_less [of x] by simp
  then show ?thesis
    unfolding unat_magnitude sign_bit_unat
    using mod_if [of "unat x" 9223372036854775808]
      mod_if [of "unat x - 9223372036854775808" 9223372036854775808]
    by auto
qed

lemma sign_bit_le: "sign_bit x = (0x8000000000000000 \<le> x)"
  by (simp add: sign_bit_unat word_le_nat_alt)

lemma magnitude_if: "magnitude x = (if sign_bit x then x - 0x8000000000000000 else x)"
proof (rule word_unat_eq_iff [THEN iffD2])
  show "unat (magnitude x) = unat (if sign_bit x then x - 0x8000000000000000 else x)"
    by (simp add: unat_magnitude_if) (simp add: sign_bit_le unat_sub)
qed

lemma sign_bit_magnitude: "\<not> sign_bit (magnitude x)"
  unfolding sign_bit_unat unat_magnitude by simp

lemma sign_bit_slt: "sign_bit v = (v <s 0)"
  unfolding sign_bit_def using bit_last_iff [of v] by (simp add: word_sless_alt)

lemma sign_bit_zeros: "\<not> sign_bit PLUS_ZERO" "sign_bit MINUS_ZERO"
  by (simp_all add: sign_bit_def PLUS_ZERO_def MINUS_ZERO_def)

lemma copysign_1_neq_iff:
  "(\<not> double_eq (copysign_1 x) (copysign_1 y)) = (sign_bit x \<noteq> sign_bit y)"
  by (simp add: copysign_1_def double_eq_def is_nan_def magnitude_def
      PLUS_ONE_def MINUS_ONE_def)

lemma copysign_1_is_one: "double_eq (copysign_1 x) PLUS_ONE = (\<not> sign_bit x)"
  by (simp add: copysign_1_def double_eq_def is_nan_def magnitude_def
      PLUS_ONE_def MINUS_ONE_def)

lemma zero_magnitude_not_nan: "magnitude x = 0 \<Longrightarrow> \<not> is_nan x"
  by (simp add: is_nan_def)

lemma double_eq_sym: "double_eq x y = double_eq y x"
  by (auto simp: double_eq_def)

lemma int64_abs_zero_iff: "(int64_abs v = 0) = (v = 0)"
  by (simp add: int64_abs_def)

lemma magnitude_sum_zero_iff:
  "(magnitude x + magnitude y = 0) = (magnitude x = 0 \<and> magnitude y = 0)"
proof -
  have "unat (magnitude x) < 9223372036854775808"
    and "unat (magnitude y) < 9223372036854775808"
    unfolding unat_magnitude by simp_all
  then have "unat (magnitude x) + unat (magnitude y) < 2 ^ LENGTH(64)"
    by simp
  then have "unat (magnitude x + magnitude y) = unat (magnitude x) + unat (magnitude y)"
    by (simp only: unat_add_lem)
  then show ?thesis
    by (simp flip: unat_0_iff)
qed

lemma unat_uminus64:
  "unat (- v :: 64 word) = (if v = 0 then 0 else 18446744073709551616 - unat v)"
  using unat_sub_if_size [of 0 v] by (simp add: word_size unat_0_iff)

lemma sign_bit_uminus:
  assumes "v \<noteq> 0" and "v \<noteq> 0x8000000000000000"
  shows "sign_bit (- v) = (\<not> sign_bit v)"
proof -
  have "unat v < 18446744073709551616"
    using unsigned_less [of v] by simp
  moreover have "unat v \<noteq> 0"
    using assms(1) by (simp add: unat_0_iff)
  moreover have "unat v \<noteq> 9223372036854775808"
    using assms(2) by (simp add: word_unat_eq_iff)
  ultimately show ?thesis
    using assms(1) unfolding sign_bit_unat unat_uminus64 by auto
qed

lemma int64_abs_uminus: "int64_abs (- v) = int64_abs v"
proof (cases "v = 0 \<or> v = 0x8000000000000000")
  case True
  then show ?thesis by (auto simp: int64_abs_def)
next
  case False
  then show ?thesis
    using sign_bit_uminus [of v] by (auto simp: int64_abs_def simp flip: sign_bit_slt)
qed

lemma int64_abs_minus: "int64_abs (x - y) = int64_abs (y - x)"
  using int64_abs_uminus [of "x - y"] by simp

text \<open>The two branches of the source that do not recurse.\<close>

lemma ULPDistance_same_sign:
  "sign_bit x = sign_bit y \<Longrightarrow>
   ULPDistance x y = (if double_eq x y then 0 else int64_abs (x - y))"
  using copysign_1_neq_iff [of x y]
  by (subst ULPDistance.simps) (simp add: Let_def)

text \<open>The distance of a positive operand to \<open>+0.0\<close> and of a negative one to \<open>-0.0\<close>.\<close>

lemma ULPDistance_PLUS_ZERO:
  assumes "\<not> sign_bit p"
  shows "ULPDistance p PLUS_ZERO = magnitude p"
proof -
  have "ULPDistance p PLUS_ZERO =
      (if double_eq p PLUS_ZERO then 0 else int64_abs (p - PLUS_ZERO))"
    using assms by (simp add: ULPDistance_same_sign sign_bit_zeros)
  moreover have "int64_abs (p - PLUS_ZERO) = p"
    using assms by (simp add: int64_abs_def PLUS_ZERO_def flip: sign_bit_slt)
  moreover have "double_eq p PLUS_ZERO \<Longrightarrow> p = 0"
    using assms by (auto simp: double_eq_def PLUS_ZERO_def magnitude_if)
  ultimately show ?thesis
    using assms by (auto simp: magnitude_if)
qed

lemma ULPDistance_MINUS_ZERO:
  assumes "sign_bit n"
  shows "ULPDistance n MINUS_ZERO = magnitude n"
proof -
  have "ULPDistance n MINUS_ZERO =
      (if double_eq n MINUS_ZERO then 0 else int64_abs (n - MINUS_ZERO))"
    using assms by (simp add: ULPDistance_same_sign sign_bit_zeros)
  moreover have "\<not> sign_bit (n - MINUS_ZERO)"
    using assms sign_bit_magnitude [of n] by (simp add: magnitude_if MINUS_ZERO_def)
  then have "int64_abs (n - MINUS_ZERO) = magnitude n"
    using assms by (simp add: int64_abs_def MINUS_ZERO_def magnitude_if flip: sign_bit_slt)
  moreover have "double_eq n MINUS_ZERO \<Longrightarrow> magnitude n = 0"
    using assms by (auto simp: double_eq_def MINUS_ZERO_def magnitude_if)
  ultimately show ?thesis
    by auto
qed

lemma ULPDistance_opposite_sign:
  assumes "sign_bit x \<noteq> sign_bit y"
  shows "ULPDistance x y = (if double_eq x y then 0 else magnitude x + magnitude y)"
  using assms copysign_1_neq_iff [of x y] copysign_1_is_one [of x]
  by (subst ULPDistance.simps)
    (auto simp add: Let_def ULPDistance_PLUS_ZERO ULPDistance_MINUS_ZERO)

lemma ULPDistance_closed_form:
  "ULPDistance x y =
     (if double_eq x y then 0
      else if sign_bit x \<noteq> sign_bit y then magnitude x + magnitude y
      else int64_abs (x - y))"
  using ULPDistance_opposite_sign [of x y] ULPDistance_same_sign [of x y] by auto

lemma ULPDistance_sym: "ULPDistance x y = ULPDistance y x"
  unfolding ULPDistance_closed_form [of x y] ULPDistance_closed_form [of y x]
  using int64_abs_minus [of x y] double_eq_sym [of x y]
  by (auto simp: add.commute)

lemma ULPDistance_zero_iff: "(ULPDistance x y = 0) = (double_eq x y \<or> x = y)"
  unfolding ULPDistance_closed_form [of x y]
  by (auto simp: magnitude_sum_zero_iff int64_abs_zero_iff double_eq_def
      zero_magnitude_not_nan)

lemma ULPDistance_decomposition:
  assumes "sign_bit x \<noteq> sign_bit y"
  shows "ULPDistance x y =
      ULPDistance (if sign_bit x then y else x) PLUS_ZERO
      + ULPDistance (if sign_bit x then x else y) MINUS_ZERO"
proof (cases "double_eq x y")
  case True
  then have "magnitude x = 0" and "magnitude y = 0"
    using assms by (auto simp: double_eq_def)
  then show ?thesis
    using assms True
    by (auto simp: ULPDistance_opposite_sign ULPDistance_PLUS_ZERO ULPDistance_MINUS_ZERO)
next
  case False
  then show ?thesis
    using assms
    by (auto simp: ULPDistance_opposite_sign ULPDistance_PLUS_ZERO ULPDistance_MINUS_ZERO)
qed

text \<open>
  For operands of opposite sign the result, read without sign, is the exact sum of the
  two distances to zero.  It leaves the range of \<^verbatim>\<open>std::int64_t\<close> when the sum
  reaches \<open>2 ^ 63\<close>: then the sum of the source overflows, and the word of the model
  has wrapped around to a negative value, as for the largest finite double and its
  negation.
\<close>

lemma ULPDistance_opposite_sign_unat:
  assumes "sign_bit x \<noteq> sign_bit y" and "\<not> double_eq x y"
  shows "unat (ULPDistance x y) = unat (magnitude x) + unat (magnitude y)"
proof -
  have "unat (magnitude x) < 9223372036854775808"
    and "unat (magnitude y) < 9223372036854775808"
    unfolding unat_magnitude by simp_all
  then have "unat (magnitude x) + unat (magnitude y) < 2 ^ LENGTH(64)"
    by simp
  then have "unat (magnitude x + magnitude y) = unat (magnitude x) + unat (magnitude y)"
    by (simp only: unat_add_lem)
  then show ?thesis
    using assms by (simp add: ULPDistance_opposite_sign)
qed

lemma ULPDistance_wraps_around:
  "ULPDistance 0x7FEFFFFFFFFFFFFF 0xFFEFFFFFFFFFFFFF = 0xFFDFFFFFFFFFFFFE
   \<and> sint (0xFFDFFFFFFFFFFFFE :: int64) = - 9007199254740994"
proof -
  have "sign_bit 0x7FEFFFFFFFFFFFFF \<noteq> sign_bit 0xFFEFFFFFFFFFFFFF"
    by (simp add: sign_bit_def)
  then show ?thesis
    by (simp add: ULPDistance_opposite_sign double_eq_def is_nan_def magnitude_def)
qed

text \<open>
  C10, as stated, fails at a NaN: \<^verbatim>\<open>ULPDistance\<close> of a NaN to itself is 0, although
  a NaN does not compare equal to itself.
\<close>

theorem ULPDistance_zero_at_unequal_NaN:
  "ULPDistance 0x7FF8000000000000 0x7FF8000000000000 = 0
   \<and> \<not> double_eq 0x7FF8000000000000 0x7FF8000000000000"
  by (simp add: ULPDistance_same_sign double_eq_def is_nan_def magnitude_def int64_abs_def)

text \<open>
  C10, amended.  For all doubles \<open>x\<close> and \<open>y\<close>, NaNs and infinities included:
  \<^verbatim>\<open>ULPDistance\<close> is symmetric; it is 0 if and only if \<open>x == y\<close> as doubles (so it is 0
  for \<open>+0.0\<close> and \<open>-0.0\<close>) or \<open>x\<close> and \<open>y\<close> are one and the same NaN; and for \<open>x\<close> and
  \<open>y\<close> of opposite sign it is the distance from the positive one to \<open>+0.0\<close> plus the
  distance from the negative one to \<open>-0.0\<close>.
\<close>

theorem ULPDistance_symmetric_zero_decomposition:
  "ULPDistance x y = ULPDistance y x
   \<and> (ULPDistance x y = 0) = (double_eq x y \<or> (is_nan x \<and> x = y))
   \<and> ULPDistance PLUS_ZERO MINUS_ZERO = 0
   \<and> (sign_bit x \<noteq> sign_bit y \<longrightarrow>
        ULPDistance x y =
          ULPDistance (if sign_bit x then y else x) PLUS_ZERO
          + ULPDistance (if sign_bit x then x else y) MINUS_ZERO)"
proof -
  have "(double_eq x y \<or> x = y) = (double_eq x y \<or> (is_nan x \<and> x = y))"
    by (auto simp: double_eq_def)
  moreover have "ULPDistance PLUS_ZERO MINUS_ZERO = 0"
    by (simp add: ULPDistance_zero_iff double_eq_def is_nan_def magnitude_def
        PLUS_ZERO_def MINUS_ZERO_def)
  ultimately show ?thesis
    using ULPDistance_sym [of x y] ULPDistance_zero_iff [of x y]
      ULPDistance_decomposition [of x y]
    by simp
qed

theorem ULPDistance_witness:
  "sign_bit 0x3FF0000000000000 \<noteq> sign_bit 0xBFF0000000000000
   \<and> ULPDistance 0x3FF0000000000000 0xBFF0000000000000 = 0x7FE0000000000000
   \<and> ULPDistance 0xBFF0000000000000 0x3FF0000000000000 = 0x7FE0000000000000
   \<and> \<not> double_eq 0x3FF0000000000000 0xBFF0000000000000"
proof -
  have s: "sign_bit 0x3FF0000000000000 \<noteq> sign_bit 0xBFF0000000000000"
    by (simp add: sign_bit_def)
  have p: "ULPDistance 0x3FF0000000000000 PLUS_ZERO = 0x3FF0000000000000"
    by (simp add: ULPDistance_PLUS_ZERO sign_bit_def magnitude_def)
  have n: "ULPDistance 0xBFF0000000000000 MINUS_ZERO = 0x3FF0000000000000"
    by (simp add: ULPDistance_MINUS_ZERO sign_bit_def magnitude_def)
  note t = ULPDistance_symmetric_zero_decomposition
    [of "0x3FF0000000000000" "0xBFF0000000000000"]
  have c: "ULPDistance 0xBFF0000000000000 0x3FF0000000000000 =
      ULPDistance 0x3FF0000000000000 0xBFF0000000000000"
    by (rule t [THEN conjunct1, symmetric])
  from t [THEN conjunct2, THEN conjunct2, THEN conjunct2]
  have "ULPDistance 0x3FF0000000000000 0xBFF0000000000000 =
      ULPDistance 0x3FF0000000000000 PLUS_ZERO + ULPDistance 0xBFF0000000000000 MINUS_ZERO"
    by (simp add: sign_bit_def)
  then have v: "ULPDistance 0x3FF0000000000000 0xBFF0000000000000 = 0x7FE0000000000000"
    by (simp add: p n)
  have d: "\<not> double_eq 0x3FF0000000000000 0xBFF0000000000000"
    by (simp add: double_eq_def magnitude_def is_nan_def)
  show ?thesis
    unfolding c v using s d by (intro conjI) (rule s, rule refl, rule refl, rule d)
qed

section \<open>Properties of the geometric algebra layer\<close>











section \<open>Properties of the trajectory\<close>

lemma last_time_None_iff: "(last_time trajectory = None) = (timeline trajectory = [])"
  by (simp add: last_time_def split: list.splits)

lemma last_time_Some:
  "timeline trajectory \<noteq> [] \<Longrightarrow> last_time trajectory = Some (last (sample_times trajectory))"
  by (simp add: last_time_def sample_times_def last_map split: list.splits)

text \<open>An accepted sample is the new last sample, and the earlier samples stay.\<close>

lemma Append_Inr_timeline:
  "Append position velocity time trajectory = Inr trajectory' \<Longrightarrow>
   timeline trajectory' = timeline trajectory @ [(time, position, velocity)]"
  by (auto simp: Append_def last_time_None_iff split: option.splits if_splits)

lemma increasing_le_last:
  fixes ts :: "real list"
  shows "sorted_wrt (<) ts \<Longrightarrow> t \<in> set ts \<Longrightarrow> t \<le> last ts"
proof (induction ts)
  case Nil
  then show ?case by simp
next
  case (Cons a ts)
  show ?case
  proof (cases "ts = []")
    case True
    then show ?thesis using Cons.prems by simp
  next
    case False
    then have "last ts \<in> set ts" by simp
    then have less: "a < last ts" using Cons.prems(1) by simp
    show ?thesis
    proof (cases "t = a")
      case True
      then show ?thesis using less False by simp
    next
      case neq: False
      then have "t \<in> set ts" using Cons.prems(2) by simp
      then have "t \<le> last ts" using Cons.IH Cons.prems(1) by simp
      then show ?thesis using False by simp
    qed
  qed
qed

text \<open>The times of a trajectory built by \<open>Append\<close> alone increase strictly.\<close>

lemma Append_keeps_times_increasing:
  assumes "sorted_wrt (<) (sample_times trajectory)"
    and "Append position velocity time trajectory = Inr trajectory'"
  shows "sorted_wrt (<) (sample_times trajectory')"
proof (cases "timeline trajectory = []")
  case True
  then show ?thesis
    using assms(2) by (auto simp: Append_def last_time_def sample_times_def)
next
  case False
  then have "last (sample_times trajectory) < time"
    using assms(2) by (auto simp: Append_def last_time_Some split: if_splits)
  then have "\<forall>t \<in> set (sample_times trajectory). t < time"
    using increasing_le_last [OF assms(1)] by fastforce
  then show ?thesis
    using assms Append_Inr_timeline [OF assms(2)]
    by (simp add: sample_times_def sorted_wrt_append)
qed

text \<open>
  C7. \<open>Append\<close> succeeds if and only if the trajectory is empty or the time is
  strictly greater than the last appended time.  A fresh trajectory accepts its first
  sample, whatever its time; an append whose time is not greater than the last
  appended time is rejected with a failure, and no trajectory is returned.
\<close>

theorem Append_succeeds_iff_empty_or_later:
  "(\<exists>trajectory'. Append position velocity time trajectory = Inr trajectory')
     = (timeline trajectory = [] \<or> (\<exists>t. last_time trajectory = Some t \<and> t < time))
   \<and> Append position velocity time Trajectory_empty =
       Inr \<lparr> timeline = [(time, position, velocity)] \<rparr>
   \<and> (last_time trajectory = Some t \<and> time \<le> t \<longrightarrow>
        Append position velocity time trajectory = Inl (CheckFailed ''Append out of order''))"
  by (cases "timeline trajectory")
    (auto simp: Append_def Trajectory_empty_def last_time_def)

theorem Append_witness:
  "last_time \<lparr> timeline = [(0, Vector_zero, Vector_zero)] \<rparr> = Some 0 \<and> (0 :: real) \<le> 0
   \<and> Append Vector_zero Vector_zero 0 \<lparr> timeline = [(0, Vector_zero, Vector_zero)] \<rparr> =
       Inl (CheckFailed ''Append out of order'')
   \<and> (\<exists>trajectory'.
         Append Vector_zero Vector_zero 1 \<lparr> timeline = [(0, Vector_zero, Vector_zero)] \<rparr> =
           Inr trajectory')"
proof -
  have l: "last_time \<lparr> timeline = [(0, Vector_zero, Vector_zero)] \<rparr> = Some 0"
    by (simp add: last_time_def)
  note t = Append_succeeds_iff_empty_or_later
    [of Vector_zero Vector_zero _ "\<lparr> timeline = [(0, Vector_zero, Vector_zero)] \<rparr>" 0]
  from t [of 0, THEN conjunct2, THEN conjunct2] l
  have r: "Append Vector_zero Vector_zero 0 \<lparr> timeline = [(0, Vector_zero, Vector_zero)] \<rparr> =
      Inl (CheckFailed ''Append out of order'')"
    by simp
  from t [of 1, THEN conjunct1] l
  have a: "\<exists>trajectory'.
      Append Vector_zero Vector_zero 1 \<lparr> timeline = [(0, Vector_zero, Vector_zero)] \<rparr> =
        Inr trajectory'"
    by simp
  from l r a show ?thesis
    by simp
qed

section \<open>Properties of the N-body system\<close>

text \<open>Whatever the failure, the system after a failed call is the system before it.\<close>

lemma Integrate_failure_keeps_system:
  "fst (Integrate integrator duration dt sampling_period system) \<noteq> None \<Longrightarrow>
   snd (Integrate integrator duration dt sampling_period system) = system"
  by (auto simp: Integrate_def split: if_splits option.splits sum.splits prod.splits)

text \<open>
  A run of the model: one massive body at rest at the origin moves nowhere; two steps
  sampled at every step add two samples to the one it started from.
\<close>

lemma Integrate_two_steps:
  "Integrate (Initialize [(1, 1)] SPRKIntegrator_new) 2 1 1
     \<lparr> massive_bodies = [\<lparr> m_gravitational_parameter = 1, m_mass = 1 \<rparr>],
       massless_bodies = [],
       trajectories = [\<lparr> timeline = [(0, Vector R3_zero, Vector R3_zero)] \<rparr>] \<rparr>
   = (None,
      \<lparr> massive_bodies = [\<lparr> m_gravitational_parameter = 1, m_mass = 1 \<rparr>],
        massless_bodies = [],
        trajectories = [\<lparr> timeline = [(0, Vector R3_zero, Vector R3_zero),
                                        (1, Vector R3_zero, Vector R3_zero),
                                        (2, Vector R3_zero, Vector R3_zero)] \<rparr>] \<rparr>)"
proof -
  have two: "nat \<lfloor>2 / 1 :: real\<rfloor> = Suc (Suc 0)"
    by simp
  show ?thesis
    unfolding Integrate_def two
    by (simp add: Initialize_def SPRKIntegrator_new_def initial_state_def last_time_def
        positions_def velocities_def accelerations_def enumerate_eq_zip R3_plus_def
        R3_scale_def R3_zero_def Append_def gravitational_parameter_def Let_def)
qed

text \<open>
  C8. \<open>Integrate\<close> with a time step that is not positive reports a failure, and the
  system after the failed call is the system before it: every trajectory is unchanged,
  so the last times of the trajectories are what they were and no step has been
  recorded for some bodies only.
\<close>

theorem Integrate_rejects_nonpositive_time_step:
  assumes "dt \<le> 0"
  shows "Integrate integrator duration dt sampling_period system =
           (Some (CheckFailed ''Time step must be positive''), system)
       \<and> trajectories (snd (Integrate integrator duration dt sampling_period system)) =
           trajectories system
       \<and> map last_time
           (trajectories (snd (Integrate integrator duration dt sampling_period system))) =
           map last_time (trajectories system)"
  using assms by (simp add: Integrate_def)

theorem Integrate_rejects_nonpositive_time_step_witness:
  "(0 :: real) \<le> 0
   \<and> Integrate (Initialize [(1, 1)] SPRKIntegrator_new) 2 0 1
       \<lparr> massive_bodies = [\<lparr> m_gravitational_parameter = 1, m_mass = 1 \<rparr>],
         massless_bodies = [],
         trajectories = [\<lparr> timeline = [(0, Vector R3_zero, Vector R3_zero)] \<rparr>] \<rparr>
     = (Some (CheckFailed ''Time step must be positive''),
        \<lparr> massive_bodies = [\<lparr> m_gravitational_parameter = 1, m_mass = 1 \<rparr>],
          massless_bodies = [],
          trajectories = [\<lparr> timeline = [(0, Vector R3_zero, Vector R3_zero)] \<rparr>] \<rparr>)"
  using Integrate_rejects_nonpositive_time_step
    [of 0 "Initialize [(1, 1)] SPRKIntegrator_new" 2 1
      "\<lparr> massive_bodies = [\<lparr> m_gravitational_parameter = 1, m_mass = 1 \<rparr>],
         massless_bodies = [],
         trajectories = [\<lparr> timeline = [(0, Vector R3_zero, Vector R3_zero)] \<rparr>] \<rparr>"]
  by simp

end
